theory Spec2Isabelle
  imports Main "HOL-Library.Code_Target_Nat"
begin

section \<open>Python values used by the serial client\<close>

text \<open>
  A Python \<open>str\<close> is a sequence of Unicode code points, a \<open>bytes\<close> object a sequence
  of octets. Literals of the source are ASCII and are written \<open>u ''PING''\<close>.
\<close>

type_synonym ustr = "nat list"
type_synonym bytes = "char list"

definition u :: "string \<Rightarrow> ustr" where
  "u s = map of_char s"

text \<open>
  The exceptions that reach the code of \<open>Testing GUI.py\<close>. All of them derive from
  \<open>Exception\<close>, so \<open>except Exception\<close> catches each; the argument is the text that
  \<open>str(e)\<close> gives. \<open>RuntimeError\<close> and \<open>TimeoutError\<close> are raised by \<open>send_cmd\<close>
  itself, \<open>SerialException\<close> stands for what pyserial raises, \<open>UnicodeEncodeError\<close>
  comes from \<open>str.encode\<close> and \<open>AttributeError\<close> from an attribute lookup.
\<close>

datatype exn =
    RuntimeError ustr
  | TimeoutError ustr
  | SerialException ustr
  | UnicodeEncodeError ustr
  | AttributeError ustr

fun str_exn :: "exn \<Rightarrow> ustr" where
  "str_exn (RuntimeError m) = m"
| "str_exn (TimeoutError m) = m"
| "str_exn (SerialException m) = m"
| "str_exn (UnicodeEncodeError m) = m"
| "str_exn (AttributeError m) = m"

section \<open>Text: str.strip, UTF-8\<close>

text \<open>
  \<open>str.strip()\<close> removes the code points for which \<open>str.isspace()\<close> holds from both
  ends. \<open>isspace\<close> lists them as CPython's Unicode database does.
\<close>

definition isspace :: "nat \<Rightarrow> bool" where
  "isspace c =
     ((9 \<le> c \<and> c \<le> 13) \<or> (28 \<le> c \<and> c \<le> 32) \<or> c = 0x85 \<or> c = 0xA0
      \<or> c = 0x1680 \<or> (0x2000 \<le> c \<and> c \<le> 0x200A) \<or> c = 0x2028 \<or> c = 0x2029
      \<or> c = 0x202F \<or> c = 0x205F \<or> c = 0x3000)"

definition strip :: "ustr \<Rightarrow> ustr" where
  "strip s = rev (dropWhile isspace (rev (dropWhile isspace s)))"

text \<open>
  \<open>bytes.decode('utf-8', errors='replace')\<close>: every well-formed sequence gives its code
  point, every maximal ill-formed prefix gives one U+FFFD, and the function is total.
  \<open>second_ok\<close> is the range of the second byte for each lead byte (no overlong forms, no
  surrogates, nothing above U+10FFFF).
\<close>

definition is_cont :: "nat \<Rightarrow> bool" where
  "is_cont b = (0x80 \<le> b \<and> b \<le> 0xBF)"

definition second_ok :: "nat \<Rightarrow> nat \<Rightarrow> bool" where
  "second_ok b c =
     (if b = 0xE0 then 0xA0 \<le> c \<and> c \<le> 0xBF
      else if b = 0xED then 0x80 \<le> c \<and> c \<le> 0x9F
      else if b = 0xF0 then 0x90 \<le> c \<and> c \<le> 0xBF
      else if b = 0xF4 then 0x80 \<le> c \<and> c \<le> 0x8F
      else is_cont c)"

fun decode_cps :: "nat list \<Rightarrow> ustr" where
  "decode_cps [] = []"
| "decode_cps (b # bs) =
     (if b < 0x80 then b # decode_cps bs
      else if 0xC2 \<le> b \<and> b \<le> 0xDF then
        (case bs of
           [] \<Rightarrow> [0xFFFD]
         | c1 # r1 \<Rightarrow>
             if is_cont c1 then ((b - 0xC0) * 64 + (c1 - 0x80)) # decode_cps r1
             else 0xFFFD # decode_cps bs)
      else if 0xE0 \<le> b \<and> b \<le> 0xEF then
        (case bs of
           [] \<Rightarrow> [0xFFFD]
         | c1 # r1 \<Rightarrow>
             if second_ok b c1 then
               (case r1 of
                  [] \<Rightarrow> [0xFFFD]
                | c2 # r2 \<Rightarrow>
                    if is_cont c2 then
                      ((b - 0xE0) * 4096 + (c1 - 0x80) * 64 + (c2 - 0x80)) # decode_cps r2
                    else 0xFFFD # decode_cps r1)
             else 0xFFFD # decode_cps bs)
      else if 0xF0 \<le> b \<and> b \<le> 0xF4 then
        (case bs of
           [] \<Rightarrow> [0xFFFD]
         | c1 # r1 \<Rightarrow>
             if second_ok b c1 then
               (case r1 of
                  [] \<Rightarrow> [0xFFFD]
                | c2 # r2 \<Rightarrow>
                    if is_cont c2 then
                      (case r2 of
                         [] \<Rightarrow> [0xFFFD]
                       | c3 # r3 \<Rightarrow>
                           if is_cont c3 then
                             ((b - 0xF0) * 262144 + (c1 - 0x80) * 4096 + (c2 - 0x80) * 64
                                + (c3 - 0x80)) # decode_cps r3
                           else 0xFFFD # decode_cps r2)
                    else 0xFFFD # decode_cps r1)
             else 0xFFFD # decode_cps bs)
      else 0xFFFD # decode_cps bs)"

definition decode_utf8_replace :: "bytes \<Rightarrow> ustr" where
  "decode_utf8_replace raw = decode_cps (map of_char raw)"

text \<open>
  \<open>str.encode('utf-8')\<close> of one code point; a surrogate cannot be encoded (\<open>None\<close>).
  A Python \<open>str\<close> holds no code point above U+10FFFF.
\<close>

fun encode_cp :: "nat \<Rightarrow> bytes option" where
  "encode_cp c =
     (if c < 0x80 then Some [char_of c]
      else if c < 0x800 then Some [char_of (0xC0 + c div 64), char_of (0x80 + c mod 64)]
      else if 0xD800 \<le> c \<and> c \<le> 0xDFFF then None
      else if c < 0x10000 then
        Some [char_of (0xE0 + c div 4096), char_of (0x80 + c div 64 mod 64),
              char_of (0x80 + c mod 64)]
      else if c < 0x110000 then
        Some [char_of (0xF0 + c div 262144), char_of (0x80 + c div 4096 mod 64),
              char_of (0x80 + c div 64 mod 64), char_of (0x80 + c mod 64)]
      else None)"

fun encode_utf8 :: "ustr \<Rightarrow> bytes option" where
  "encode_utf8 [] = Some []"
| "encode_utf8 (c # cs) =
     (case encode_cp c of
        None \<Rightarrow> None
      | Some bs \<Rightarrow> (case encode_utf8 cs of None \<Rightarrow> None | Some r \<Rightarrow> Some (bs @ r)))"

section \<open>Python floats: float(), comparison with zero, repr\<close>

text \<open>
  A Python \<open>float\<close> is an IEEE 754 binary64 value: not-a-number, an infinity with its
  sign (\<open>True\<close>: negative), or \<open>FFin neg m e\<close>, the value \<open>\<plusminus> m * 2 ^ e\<close> with
  \<open>m < 2 ^ 53\<close> and \<open>- 1074 \<le> e \<le> 971\<close> (zero is \<open>FFin neg 0 0\<close>).
  \<open>double_of_ratio\<close> rounds the positive rational \<open>n / d\<close> to the nearest such value,
  ties to even, overflowing to infinity and underflowing to zero, which is how
  \<open>float(str)\<close> converts a decimal literal.
\<close>

datatype pyfloat = FNan | FInf bool | FFin bool nat int

fun bitlen :: "nat \<Rightarrow> nat" where
  "bitlen n = (if n = 0 then 0 else Suc (bitlen (n div 2)))"

definition round_half_even :: "nat \<Rightarrow> nat \<Rightarrow> nat" where
  "round_half_even num den =
     (let q = num div den; r = num mod den
      in if den < 2 * r \<or> (2 * r = den \<and> odd q) then q + 1 else q)"

definition double_of_ratio :: "bool \<Rightarrow> nat \<Rightarrow> nat \<Rightarrow> pyfloat" where
  "double_of_ratio sg n d =
     (if n = 0 then FFin sg 0 0
      else
        let k = int (bitlen n) - int (bitlen d);
            fl = (if d * 2 ^ nat k \<le> n * 2 ^ nat (- k) then k else k - 1);
            e = max (fl - 52) (- 1074);
            m = round_half_even (n * 2 ^ nat (- e)) (d * 2 ^ nat e);
            m' = (if m = 2 ^ 53 then 2 ^ 52 else m);
            e' = (if m = 2 ^ 53 then e + 1 else e)
        in if 971 < e' then FInf sg else if m' = 0 then FFin sg 0 0 else FFin sg m' e')"

definition double_of_decimal :: "bool \<Rightarrow> nat \<Rightarrow> int \<Rightarrow> pyfloat" where
  "double_of_decimal sg M E =
     (if 0 \<le> E then double_of_ratio sg (M * 10 ^ nat E) 1
      else double_of_ratio sg M (10 ^ nat (- E)))"

definition is_digit :: "nat \<Rightarrow> bool" where
  "is_digit c = (48 \<le> c \<and> c \<le> 57)"

definition nat_of_digits :: "ustr \<Rightarrow> nat" where
  "nat_of_digits ds = foldl (\<lambda>a c. 10 * a + (c - 48)) 0 ds"

definition lower :: "nat \<Rightarrow> nat" where
  "lower c = (if 65 \<le> c \<and> c \<le> 90 then c + 32 else c)"

text \<open>
  The exponent of a literal: \<open>e\<close> or \<open>E\<close>, an optional sign, at least one digit.
  The result is the exponent and the text after it.
\<close>

definition parse_exponent :: "ustr \<Rightarrow> (int \<times> ustr) option" where
  "parse_exponent s =
     (case s of
        [] \<Rightarrow> None
      | c # r \<Rightarrow>
          if c = 101 \<or> c = 69 then
            (let neg = (case r of [] \<Rightarrow> False | x # _ \<Rightarrow> x = 45);
                 r1 = (case r of [] \<Rightarrow> [] | x # t \<Rightarrow> if x = 45 \<or> x = 43 then t else r);
                 ds = takeWhile is_digit r1
             in if ds = [] then None
                else Some ((if neg then - int (nat_of_digits ds) else int (nat_of_digits ds)),
                           dropWhile is_digit r1))
          else None)"

text \<open>
  The literals \<open>float()\<close> accepts once white space and underscores are gone: an
  optional sign, then \<open>inf\<close>, \<open>infinity\<close> or \<open>nan\<close> in any letter case, or digits with
  an optional point and exponent (at least one digit before or after the point). The
  whole text must be used up; \<open>None\<close> is \<open>ValueError\<close>.
\<close>

definition parse_decimal :: "ustr \<Rightarrow> pyfloat option" where
  "parse_decimal s =
     (let neg = (case s of [] \<Rightarrow> False | x # _ \<Rightarrow> x = 45);
          s1 = (case s of [] \<Rightarrow> [] | x # t \<Rightarrow> if x = 45 \<or> x = 43 then t else s);
          l = map lower s1
      in if l = u ''inf'' \<or> l = u ''infinity'' then Some (FInf neg)
         else if l = u ''nan'' then Some FNan
         else
           let ip = takeWhile is_digit s1;
               r1 = dropWhile is_digit s1;
               fp = (case r1 of [] \<Rightarrow> [] | x # t \<Rightarrow> if x = 46 then takeWhile is_digit t else []);
               r2 = (case r1 of [] \<Rightarrow> [] | x # t \<Rightarrow> if x = 46 then dropWhile is_digit t else r1)
           in if ip = [] \<and> fp = [] then None
              else if r2 = [] then
                Some (double_of_decimal neg (nat_of_digits (ip @ fp)) (- int (length fp)))
              else
                (case parse_exponent r2 of
                   None \<Rightarrow> None
                 | Some (ex, r3) \<Rightarrow>
                     if r3 = [] then
                       Some (double_of_decimal neg (nat_of_digits (ip @ fp)) (ex - int (length fp)))
                     else None))"

text \<open>
  \<open>repr(float)\<close> (which \<open>str()\<close> and an f-string field without format use): the
  shortest decimal digit string that converts back to the same float, the closest to the
  value among those, laid out with a point and \<open>.0\<close>, or in exponent notation when the
  decimal point position is at most \<open>- 4\<close> or above \<open>16\<close>.
\<close>

fun digits_of :: "nat \<Rightarrow> ustr" where
  "digits_of n = (if n < 10 then [48 + n] else digits_of (n div 10) @ [48 + n mod 10])"

definition str_of_int :: "int \<Rightarrow> ustr" where
  "str_of_int i = (if i < 0 then 45 # digits_of (nat (- i)) else digits_of (nat i))"

fun lead_zeros :: "nat \<Rightarrow> nat \<Rightarrow> nat \<Rightarrow> nat" where
  "lead_zeros 0 vn vd = 0"
| "lead_zeros (Suc f) vn vd = (if vd \<le> vn * 10 then 0 else Suc (lead_zeros f (vn * 10) vd))"

definition decpt_of :: "nat \<Rightarrow> nat \<Rightarrow> int" where
  "decpt_of vn vd =
     (if vd \<le> vn then int (length (digits_of (vn div vd)))
      else - int (lead_zeros 400 vn vd))"

definition candidate :: "nat \<Rightarrow> int \<Rightarrow> nat \<Rightarrow> nat \<Rightarrow> int \<Rightarrow> nat \<Rightarrow> nat option" where
  "candidate m e vn vd p nd =
     (let sc = int nd - p;
          num = (if 0 \<le> sc then vn * 10 ^ nat sc else vn);
          den = (if 0 \<le> sc then vd else vd * 10 ^ nat (- sc));
          lo = num div den;
          hi = lo + 1;
          lo_ok = (double_of_decimal False lo (- sc) = FFin False m e);
          hi_ok = (double_of_decimal False hi (- sc) = FFin False m e)
      in if num mod den = 0 then Some lo
         else if lo_ok \<and> hi_ok then
           (if 2 * num < (2 * lo + 1) * den then Some lo
            else if (2 * lo + 1) * den < 2 * num then Some hi
            else if even lo then Some lo else Some hi)
         else if lo_ok then Some lo
         else if hi_ok then Some hi
         else None)"

fun shortest :: "nat \<Rightarrow> nat \<Rightarrow> int \<Rightarrow> nat \<Rightarrow> nat \<Rightarrow> int \<Rightarrow> nat \<Rightarrow> nat \<times> nat" where
  "shortest 0 m e vn vd p nd = (0, nd)"
| "shortest (Suc f) m e vn vd p nd =
     (case candidate m e vn vd p nd of
        Some D \<Rightarrow> (D, nd)
      | None \<Rightarrow> shortest f m e vn vd p (Suc nd))"

definition strip_zeros :: "ustr \<Rightarrow> ustr" where
  "strip_zeros ds = rev (dropWhile (\<lambda>c. c = 48) (rev ds))"

definition exp_digits :: "int \<Rightarrow> ustr" where
  "exp_digits x =
     (let a = nat (abs x); ds = digits_of a
      in (if x < 0 then 45 else 43) # (if a < 10 then 48 # ds else ds))"

definition format_repr :: "ustr \<Rightarrow> int \<Rightarrow> ustr" where
  "format_repr ds decpt =
     (if decpt \<le> - 4 \<or> 16 < decpt then
        (case ds of
           [] \<Rightarrow> []
         | d # rest \<Rightarrow>
             (if rest = [] then [d] else d # 46 # rest) @ [101] @ exp_digits (decpt - 1))
      else if decpt \<le> 0 then [48, 46] @ replicate (nat (- decpt)) 48 @ ds
      else if nat decpt < length ds then take (nat decpt) ds @ [46] @ drop (nat decpt) ds
      else ds @ replicate (nat decpt - length ds) 48 @ [46, 48])"

definition repr_float :: "pyfloat \<Rightarrow> ustr" where
  "repr_float x =
     (case x of
        FNan \<Rightarrow> u ''nan''
      | FInf neg \<Rightarrow> (if neg then u ''-inf'' else u ''inf'')
      | FFin neg m e \<Rightarrow>
          (if neg then [45] else []) @
          (if m = 0 then u ''0.0''
           else
             let vn = (if 0 \<le> e then m * 2 ^ nat e else m);
                 vd = (if 0 \<le> e then 1 else 2 ^ nat (- e));
                 p = decpt_of vn vd;
                 (D, nd) = shortest 17 m e vn vd p 1;
                 full = digits_of D
             in format_repr (strip_zeros full) (p + int (length full) - int nd)))"

section \<open>JSON: json.loads\<close>

text \<open>
  The Python values \<open>json.loads\<close> returns: \<open>JNull\<close> is \<open>None\<close>, a \<open>dict\<close> keeps
  its keys in insertion order and a repeated key overwrites the value in place
  (\<open>dict_set\<close>).

  \<open>json_loads\<close> follows CPython's scanner: optional white space (space, tab, line feed,
  carriage return), one value, optional white space, end of text. Strings are strict
  (no control characters; the escapes of JSON; a pair of surrogate escapes is joined);
  numbers are \<open>-?(0|[1-9][0-9]*)(.[0-9]+)?([eE][+-]?[0-9]+)?\<close>, an \<open>int\<close> unless a
  fraction or exponent is present; \<open>NaN\<close>, \<open>Infinity\<close> and \<open>-Infinity\<close> are accepted.
  \<open>None\<close> stands for any exception of \<open>json.loads\<close>. The first argument of
  \<open>scan_once\<close> bounds the number of nested calls; twice the length of the text is never
  reached, since every call consumes a character.
\<close>

datatype json =
    JNull
  | JBool bool
  | JInt int
  | JFloat pyfloat
  | JStr ustr
  | JArr "json list"
  | JObj "(ustr \<times> json) list"

fun dict_set :: "ustr \<Rightarrow> json \<Rightarrow> (ustr \<times> json) list \<Rightarrow> (ustr \<times> json) list" where
  "dict_set k v [] = [(k, v)]"
| "dict_set k v ((k', v') # r) = (if k = k' then (k, v) # r else (k', v') # dict_set k v r)"

definition is_ws :: "nat \<Rightarrow> bool" where
  "is_ws c = (c = 32 \<or> c = 9 \<or> c = 10 \<or> c = 13)"

definition skip_ws :: "ustr \<Rightarrow> ustr" where
  "skip_ws s = dropWhile is_ws s"

definition hexval :: "nat \<Rightarrow> nat option" where
  "hexval c =
     (if 48 \<le> c \<and> c \<le> 57 then Some (c - 48)
      else if 97 \<le> c \<and> c \<le> 102 then Some (c - 87)
      else if 65 \<le> c \<and> c \<le> 70 then Some (c - 55)
      else None)"

definition hex4 :: "nat \<Rightarrow> nat \<Rightarrow> nat \<Rightarrow> nat \<Rightarrow> nat option" where
  "hex4 a b c d =
     (case (hexval a, hexval b, hexval c, hexval d) of
        (Some w, Some x, Some y, Some z) \<Rightarrow> Some (w * 4096 + x * 256 + y * 16 + z)
      | _ \<Rightarrow> None)"

definition unescape :: "nat \<Rightarrow> nat option" where
  "unescape e =
     (if e = 34 then Some 34 else if e = 92 then Some 92 else if e = 47 then Some 47
      else if e = 98 then Some 8 else if e = 102 then Some 12 else if e = 110 then Some 10
      else if e = 114 then Some 13 else if e = 116 then Some 9 else None)"

definition cons_result :: "nat \<Rightarrow> (ustr \<times> ustr) option \<Rightarrow> (ustr \<times> ustr) option" where
  "cons_result c r = (case r of None \<Rightarrow> None | Some (s, rest) \<Rightarrow> Some (c # s, rest))"

fun scanstring :: "ustr \<Rightarrow> (ustr \<times> ustr) option" where
  "scanstring [] = None"
| "scanstring (c # cs) =
     (if c = 34 then Some ([], cs)
      else if c = 92 then
        (case cs of
           [] \<Rightarrow> None
         | e # r \<Rightarrow>
             if e = 117 then
               (case r of
                  a # b # c1 # d # r4 \<Rightarrow>
                    (case hex4 a b c1 d of
                       None \<Rightarrow> None
                     | Some hi \<Rightarrow>
                         if 0xD800 \<le> hi \<and> hi \<le> 0xDBFF then
                           (case r4 of
                              b1 # u1 # a2 # b2 # c2 # d2 # r10 \<Rightarrow>
                                if b1 = 92 \<and> u1 = 117 \<and> r10 \<noteq> [] then
                                  (case hex4 a2 b2 c2 d2 of
                                     None \<Rightarrow> None
                                   | Some lo \<Rightarrow>
                                       if 0xDC00 \<le> lo \<and> lo \<le> 0xDFFF then
                                         cons_result
                                           (0x10000 + (hi - 0xD800) * 1024 + (lo - 0xDC00))
                                           (scanstring r10)
                                       else cons_result hi (scanstring r4))
                                else cons_result hi (scanstring r4)
                            | _ \<Rightarrow> cons_result hi (scanstring r4))
                         else cons_result hi (scanstring r4))
                | _ \<Rightarrow> None)
             else
               (case unescape e of
                  None \<Rightarrow> None
                | Some ch \<Rightarrow> cons_result ch (scanstring r)))
      else if c < 32 then None
      else cons_result c (scanstring cs))"

definition match_number :: "ustr \<Rightarrow> (json \<times> ustr) option" where
  "match_number s =
     (let neg = (case s of [] \<Rightarrow> False | x # _ \<Rightarrow> x = 45);
          s1 = (if neg then tl s else s);
          ip = (case s1 of
                  [] \<Rightarrow> []
                | d # t \<Rightarrow> if d = 48 then [48]
                           else if 49 \<le> d \<and> d \<le> 57 then d # takeWhile is_digit t
                           else []);
          r1 = drop (length ip) s1;
          fp = (case r1 of
                  x # y # t \<Rightarrow> if x = 46 \<and> is_digit y then y # takeWhile is_digit t else []
                | _ \<Rightarrow> []);
          r2 = (if fp = [] then r1 else drop (Suc (length fp)) r1);
          ex = parse_exponent r2;
          r3 = (case ex of None \<Rightarrow> r2 | Some (x, r) \<Rightarrow> r);
          lexeme = take (length s - length r3) s
      in if ip = [] then None
         else if fp = [] \<and> ex = None then
           Some (JInt (if neg then - int (nat_of_digits ip) else int (nat_of_digits ip)), r3)
         else (case parse_decimal lexeme of None \<Rightarrow> None | Some f \<Rightarrow> Some (JFloat f, r3)))"

definition starts_with :: "string \<Rightarrow> ustr \<Rightarrow> bool" where
  "starts_with lit s = (take (length lit) s = u lit)"

definition scan_atom :: "ustr \<Rightarrow> (json \<times> ustr) option" where
  "scan_atom s =
     (if starts_with ''null'' s then Some (JNull, drop 4 s)
      else if starts_with ''true'' s then Some (JBool True, drop 4 s)
      else if starts_with ''false'' s then Some (JBool False, drop 5 s)
      else if starts_with ''NaN'' s then Some (JFloat FNan, drop 3 s)
      else if starts_with ''Infinity'' s then Some (JFloat (FInf False), drop 8 s)
      else if starts_with ''-Infinity'' s then Some (JFloat (FInf True), drop 9 s)
      else match_number s)"

fun scan_once :: "nat \<Rightarrow> ustr \<Rightarrow> (json \<times> ustr) option"
  and scan_array :: "nat \<Rightarrow> json list \<Rightarrow> ustr \<Rightarrow> (json \<times> ustr) option"
  and scan_object :: "nat \<Rightarrow> (ustr \<times> json) list \<Rightarrow> ustr \<Rightarrow> (json \<times> ustr) option"
where
  "scan_once 0 s = None"
| "scan_once (Suc n) s =
     (case s of
        [] \<Rightarrow> None
      | c # cs \<Rightarrow>
          if c = 34 then
            (case scanstring cs of None \<Rightarrow> None | Some (t, r) \<Rightarrow> Some (JStr t, r))
          else if c = 123 then
            (case skip_ws cs of
               [] \<Rightarrow> None
             | d # r \<Rightarrow> if d = 125 then Some (JObj [], r) else scan_object n [] (d # r))
          else if c = 91 then
            (case skip_ws cs of
               [] \<Rightarrow> None
             | d # r \<Rightarrow> if d = 93 then Some (JArr [], r) else scan_array n [] (d # r))
          else scan_atom s)"
| "scan_array 0 acc s = None"
| "scan_array (Suc n) acc s =
     (case scan_once n s of
        None \<Rightarrow> None
      | Some (v, r) \<Rightarrow>
          (case skip_ws r of
             [] \<Rightarrow> None
           | d # r1 \<Rightarrow>
               if d = 93 then Some (JArr (acc @ [v]), r1)
               else if d = 44 then scan_array n (acc @ [v]) (skip_ws r1)
               else None))"
| "scan_object 0 acc s = None"
| "scan_object (Suc n) acc s =
     (case s of
        [] \<Rightarrow> None
      | q # cs \<Rightarrow>
          if q = 34 then
            (case scanstring cs of
               None \<Rightarrow> None
             | Some (k, r) \<Rightarrow>
                 (case skip_ws r of
                    [] \<Rightarrow> None
                  | col # r1 \<Rightarrow>
                      if col = 58 then
                        (case scan_once n (skip_ws r1) of
                           None \<Rightarrow> None
                         | Some (v, r2) \<Rightarrow>
                             (case skip_ws r2 of
                                [] \<Rightarrow> None
                              | d # r3 \<Rightarrow>
                                  if d = 125 then Some (JObj (dict_set k v acc), r3)
                                  else if d = 44 then
                                    scan_object n (dict_set k v acc) (skip_ws r3)
                                  else None))
                      else None))
          else None)"

definition json_loads :: "ustr \<Rightarrow> json option" where
  "json_loads s =
     (case scan_once (2 * length s + 2) (skip_ws s) of
        None \<Rightarrow> None
      | Some (v, r) \<Rightarrow> if skip_ws r = [] then Some v else None)"

section \<open>Transport: class SerialComm\<close>

text \<open>
  \<open>serial\<close> is the pyserial handle as far as the code reads and writes it: the
  \<open>is_open\<close> flag and the \<open>timeout\<close> attribute (every call site of the program passes
  a non-negative whole number of seconds). \<open>comm\<close> is the \<open>SerialComm\<close> object: its
  field \<open>ser\<close> (\<open>None\<close> or a handle), together with \<open>channel\<close>, the record of every
  operation the object has performed on a serial handle so far, oldest first. The lock
  of the source makes each method body atomic; each method is one function here.
\<close>

record serial =
  is_open :: bool
  timeout :: nat

datatype chan_op =
    Open ustr nat nat
  | Close
  | Reset
  | Write bytes
  | Readline nat

record comm =
  ser :: "serial option"
  channel :: "chan_op list"

definition comm_init :: comm where
  "comm_init = \<lparr>ser = None, channel = []\<rparr>"

definition perform :: "chan_op \<Rightarrow> comm \<Rightarrow> comm" where
  "perform op c = c\<lparr>channel := channel c @ [op]\<rparr>"

text \<open>
  \<open>SerialComm.open\<close>. What the environment decides is passed in: \<open>close_raises\<close> is
  the outcome of closing the previous handle, \<open>ctor_raises\<close> that of the
  \<open>serial.Serial\<close> constructor (\<open>None\<close>: it returns normally).
\<close>

record open_io =
  close_raises :: "exn option"
  ctor_raises :: "exn option"

definition comm_open :: "open_io \<Rightarrow> comm \<Rightarrow> ustr \<Rightarrow> nat \<Rightarrow> nat \<Rightarrow> (exn + bool) \<times> comm" where
  "comm_open io c port baud tmo =
     (let closed =
            (case ser c of
               None \<Rightarrow> Inr c
             | Some h \<Rightarrow>
                 if is_open h then
                   (case close_raises io of
                      Some e \<Rightarrow> Inl (e, perform Close c)
                    | None \<Rightarrow> Inr ((perform Close c)\<lparr>ser := Some (h\<lparr>is_open := False\<rparr>)\<rparr>))
                 else Inr c)
      in case closed of
           Inl (e, c1) \<Rightarrow> (Inl e, c1)
         | Inr c1 \<Rightarrow>
             (case ctor_raises io of
                Some e \<Rightarrow> (Inl e, perform (Open port baud tmo) c1)
              | None \<Rightarrow>
                  (Inr True,
                   (perform (Open port baud tmo) c1)
                     \<lparr>ser := Some \<lparr>is_open = True, timeout = tmo\<rparr>\<rparr>)))"

text \<open>
  \<open>SerialComm.close\<close>. \<open>out\<close> is the outcome of \<open>self.ser.close()\<close>; an exception
  there is caught by \<open>except Exception: pass\<close>, and \<open>self.ser = None\<close> follows on
  both paths. The result says whether the method itself raises.
\<close>

definition comm_close :: "exn option \<Rightarrow> comm \<Rightarrow> (exn + unit) \<times> comm" where
  "comm_close out c =
     (case ser c of
        None \<Rightarrow> (Inr (), c)
      | Some h \<Rightarrow>
          (let c1 = perform Close c;
               tried = (case out of Some e \<Rightarrow> Inr () | None \<Rightarrow> Inr ())
           in (tried, c1\<lparr>ser := None\<rparr>)))"

definition comm_is_open :: "comm \<Rightarrow> bool" where
  "comm_is_open c = (case ser c of None \<Rightarrow> False | Some h \<Rightarrow> is_open h)"

text \<open>Closing several times in a row, each call with its own outcome of the handle.\<close>

fun close_all :: "exn option list \<Rightarrow> comm \<Rightarrow> (exn + unit) list \<times> comm" where
  "close_all [] c = ([], c)"
| "close_all (out # outs) c =
     (let (r, c1) = comm_close out c; (rs, c2) = close_all outs c1 in (r # rs, c2))"

section \<open>Command/response client: SerialComm.send_cmd\<close>

text \<open>
  \<open>re.search(r'\{.*\}', line)\<close>: the leftmost position of a \<open>{\<close> from which the
  pattern matches, and from there the longest match: \<open>.\<close> is any code point but line
  feed, so the match runs to the last \<open>}\<close> before the next line feed.
\<close>

definition greedy_close :: "ustr \<Rightarrow> ustr option" where
  "greedy_close seg =
     (case dropWhile (\<lambda>c. c \<noteq> 125) (rev seg) of [] \<Rightarrow> None | x # r \<Rightarrow> Some (rev (x # r)))"

fun re_search_braces :: "ustr \<Rightarrow> ustr option" where
  "re_search_braces [] = None"
| "re_search_braces (c # cs) =
     (if c = 123 then
        (case greedy_close (takeWhile (\<lambda>x. x \<noteq> 10) cs) of
           Some m \<Rightarrow> Some (c # m)
         | None \<Rightarrow> re_search_braces cs)
      else re_search_braces cs)"

text \<open>
  The text of the \<open>UnicodeEncodeError\<close> that \<open>str.encode\<close> raises at the first run of
  surrogates.
\<close>

definition is_surrogate :: "nat \<Rightarrow> bool" where
  "is_surrogate c = (0xD800 \<le> c \<and> c \<le> 0xDFFF)"

definition hexdigit :: "nat \<Rightarrow> nat" where
  "hexdigit d = (if d < 10 then 48 + d else 87 + d)"

definition encode_error_text :: "ustr \<Rightarrow> ustr" where
  "encode_error_text s =
     (let pos = length (takeWhile (\<lambda>c. \<not> is_surrogate c) s);
          run = takeWhile is_surrogate (drop pos s);
          c = (case run of [] \<Rightarrow> 0 | x # _ \<Rightarrow> x)
      in if length run \<le> 1 then
           [39] @ u ''utf-8'' @ [39] @ u '' codec can'' @ [39] @ u ''t encode character '' @
           [39, 92] @ u ''ud'' @
           [hexdigit (c div 256 mod 16), hexdigit (c div 16 mod 16), hexdigit (c mod 16)] @
           [39] @ u '' in position '' @ digits_of pos @ u '': surrogates not allowed''
         else
           [39] @ u ''utf-8'' @ [39] @ u '' codec can'' @ [39] @
           u ''t encode characters in position '' @ digits_of pos @
           u ''-'' @ digits_of (pos + length run - 1) @ u '': surrogates not allowed'')"

text \<open>
  What the environment decides during one call of \<open>send_cmd\<close>: whether
  \<open>reset_input_buffer\<close> and \<open>write\<close> raise, and what \<open>readline\<close> does (it raises, or
  returns the bytes that arrived before the timeout, none if nothing arrived).
\<close>

record send_io =
  reset_raises :: "exn option"
  write_raises :: "exn option"
  readline_result :: "exn + bytes"

definition set_timeout :: "nat \<Rightarrow> comm \<Rightarrow> comm" where
  "set_timeout t c = c\<lparr>ser := map_option (\<lambda>h. h\<lparr>timeout := t\<rparr>) (ser c)\<rparr>"

definition do_readline :: "comm \<Rightarrow> comm" where
  "do_readline c = (case ser c of None \<Rightarrow> c | Some h \<Rightarrow> perform (Readline (timeout h)) c)"

definition not_open :: exn where
  "not_open = RuntimeError (u ''Serial port not open'')"

definition no_response :: "nat \<Rightarrow> ustr \<Rightarrow> exn" where
  "no_response tmo cmd =
     TimeoutError (u ''No response within '' @ digits_of tmo @ u ''s for command: '' @ cmd)"

text \<open>The last part of \<open>send_cmd\<close>: parse the line, or the braces in it, or give \<open>None\<close>.\<close>

definition parse_line :: "ustr \<Rightarrow> json" where
  "parse_line line =
     (case json_loads line of
        Some v \<Rightarrow> v
      | None \<Rightarrow>
          (case re_search_braces line of
             None \<Rightarrow> JNull
           | Some m \<Rightarrow> (case json_loads m of Some v \<Rightarrow> v | None \<Rightarrow> JNull)))"

text \<open>
  \<open>send_cmd\<close> returns the exception it raises or the pair \<open>(parsed, line)\<close>, and the
  \<open>SerialComm\<close> object as it leaves it. With \<open>errors='replace'\<close> the decoding of the
  reply cannot raise, so the \<open>except\<close> clause around it has no path here.
\<close>

definition send_cmd :: "send_io \<Rightarrow> comm \<Rightarrow> ustr \<Rightarrow> nat \<Rightarrow> (exn + json \<times> ustr) \<times> comm" where
  "send_cmd io c cmd tmo =
     (case ser c of
        None \<Rightarrow> (Inl not_open, c)
      | Some h \<Rightarrow>
          if \<not> is_open h then (Inl not_open, c)
          else
            let c1 = (case reset_raises io of Some e \<Rightarrow> perform Reset c | None \<Rightarrow> perform Reset c)
            in case encode_utf8 (strip cmd @ [10]) of
                 None \<Rightarrow> (Inl (UnicodeEncodeError (encode_error_text (strip cmd @ [10]))), c1)
               | Some cmd_line \<Rightarrow>
                   let c2 = perform (Write cmd_line) c1
                   in case write_raises io of
                        Some e \<Rightarrow> (Inl e, c2)
                      | None \<Rightarrow>
                          let old_timeout = timeout h;
                              c3 = set_timeout tmo c2;
                              c4 = do_readline c3;
                              c5 = set_timeout old_timeout c4
                          in case readline_result io of
                               Inl e \<Rightarrow> (Inl e, c5)
                             | Inr raw \<Rightarrow>
                                 if raw = [] then (Inl (no_response tmo cmd), c5)
                                 else
                                   let line = strip (decode_utf8_replace raw)
                                   in (Inr (parse_line line, line), c5))"

section \<open>The decoding policy as the specification words it\<close>

text \<open>
  The specification's decoding policy, written from its words and compared with
  \<open>parse_line\<close> below: (a) parse the whole trimmed line; (b) on failure take the text from
  the first \<open>{\<close> to the last \<open>}\<close> (the outermost pair) and parse that; (c) on failure
  the decoded value is absent (\<open>None\<close>, here \<open>JNull\<close>).
\<close>

definition outermost_braces :: "ustr \<Rightarrow> ustr option" where
  "outermost_braces line =
     (case dropWhile (\<lambda>c. c \<noteq> 123) line of
        [] \<Rightarrow> None
      | b # rest \<Rightarrow>
          (case dropWhile (\<lambda>c. c \<noteq> 125) (rev rest) of
             [] \<Rightarrow> None
           | x # r \<Rightarrow> Some (b # rev (x # r))))"

definition decode_policy :: "ustr \<Rightarrow> json" where
  "decode_policy line =
     (case json_loads line of
        Some v \<Rightarrow> v
      | None \<Rightarrow>
          (case outermost_braces line of
             None \<Rightarrow> JNull
           | Some m \<Rightarrow> (case json_loads m of Some v \<Rightarrow> v | None \<Rightarrow> JNull)))"


text \<open>An open connection with nothing sent yet, read timeout 5, for the examples.\<close>

definition open5 :: comm where
  "open5 = \<lparr>ser = Some \<lparr>is_open = True, timeout = 5\<rparr>, channel = []\<rparr>"

section \<open>Properties of the transport\<close>

lemma comm_close_result: "fst (comm_close out c) = Inr ()"
  by (simp add: comm_close_def Let_def split: option.splits)

lemma comm_close_ser: "ser (snd (comm_close out c)) = None"
  by (simp add: comm_close_def Let_def split: option.splits)

lemma comm_close_closed: "ser c = None \<Longrightarrow> comm_close out c = (Inr (), c)"
  by (simp add: comm_close_def)

lemma close_all_results: "set (fst (close_all outs c)) \<subseteq> {Inr ()}"
proof (induction outs arbitrary: c)
  case Nil
  show ?case by simp
next
  case (Cons out outs)
  have "fst (comm_close out c) = Inr ()" by (rule comm_close_result)
  with Cons.IH [of "snd (comm_close out c)"] show ?case
    by (simp add: case_prod_unfold Let_def)
qed

lemma close_all_ser: "ser (snd (close_all (out # outs) c)) = None"
proof (induction outs arbitrary: out c)
  case Nil
  show ?case by (simp add: case_prod_unfold Let_def comm_close_ser)
next
  case (Cons o2 outs)
  from Cons.IH [of o2 "snd (comm_close out c)"] show ?case
    by (simp add: case_prod_unfold Let_def)
qed

text \<open>
  C6. \<open>close()\<close> never raises, whatever the state and whatever the handle's own close
  does (its error is swallowed); it leaves \<open>ser = None\<close>, so \<open>is_open()\<close> is false
  afterwards; a further call changes nothing; and the same holds for any number of
  calls in a row.
\<close>

theorem close_idempotent:
  "fst (comm_close out c) = Inr ()
   \<and> ser (snd (comm_close out c)) = None
   \<and> comm_is_open (snd (comm_close out c)) = False
   \<and> comm_close out2 (snd (comm_close out c)) = (Inr (), snd (comm_close out c))
   \<and> set (fst (close_all outs c)) \<subseteq> {Inr ()}
   \<and> ser (snd (close_all (out # outs) c)) = None
   \<and> comm_is_open (snd (close_all (out # outs) c)) = False"
  by (simp add: comm_close_result comm_close_ser comm_close_closed close_all_results
      close_all_ser comm_is_open_def del: close_all.simps)

theorem close_idempotent_witness:
  "comm_close (Some (SerialException (u ''port gone'')))
       \<lparr>ser = Some \<lparr>is_open = True, timeout = 5\<rparr>, channel = []\<rparr>
     = (Inr (), \<lparr>ser = None, channel = [Close]\<rparr>)
   \<and> comm_close None \<lparr>ser = None, channel = [Close]\<rparr> = (Inr (), \<lparr>ser = None, channel = [Close]\<rparr>)
   \<and> comm_is_open \<lparr>ser = None, channel = [Close]\<rparr> = False"
  using close_idempotent [of "Some (SerialException (u ''port gone''))"
      "\<lparr>ser = Some \<lparr>is_open = True, timeout = 5\<rparr>, channel = []\<rparr>" None "[]"]
  by (simp add: comm_close_def perform_def comm_is_open_def)

section \<open>Properties of send_cmd\<close>

lemma send_cmd_closed:
  "comm_is_open c = False \<Longrightarrow> send_cmd io c cmd tmo = (Inl not_open, c)"
  by (simp add: send_cmd_def comm_is_open_def split: option.splits)

lemma send_cmd_ser: "ser (snd (send_cmd io c cmd tmo)) = ser c"
  by (cases "ser c")
     (auto simp: send_cmd_def Let_def set_timeout_def do_readline_def perform_def
           split: option.splits sum.splits)

lemma send_cmd_open:
  assumes "ser c = Some h" "is_open h" "encode_utf8 (strip cmd @ [10]) = Some bs"
    and "write_raises io = None"
  shows "send_cmd io c cmd tmo =
     ((case readline_result io of
         Inl e \<Rightarrow> Inl e
       | Inr raw \<Rightarrow>
           if raw = [] then Inl (no_response tmo cmd)
           else Inr (parse_line (strip (decode_utf8_replace raw)), strip (decode_utf8_replace raw))),
      c\<lparr>channel := channel c @ [Reset, Write bs, Readline tmo]\<rparr>)"
  using assms
  by (cases c; cases h)
     (auto simp: send_cmd_def Let_def set_timeout_def do_readline_def perform_def
           split: option.splits sum.splits)

lemma drop_close_Nil: "(dropWhile (\<lambda>c. c \<noteq> (125::nat)) (rev seg) = []) = (125 \<notin> set seg)"
  by (auto simp: dropWhile_eq_Nil_conv)

lemma greedy_close_None_iff: "(greedy_close seg = None) = (125 \<notin> set seg)"
  unfolding greedy_close_def using drop_close_Nil [of seg]
  by (cases "dropWhile (\<lambda>c. c \<noteq> (125::nat)) (rev seg)") (simp_all del: dropWhile_eq_Nil_conv)

lemma greedy_close_None: "125 \<notin> set seg \<Longrightarrow> greedy_close seg = None"
  by (simp add: greedy_close_None_iff)

lemma re_search_no_close: "125 \<notin> set s \<Longrightarrow> re_search_braces s = None"
proof (induction s)
  case Nil
  show ?case by simp
next
  case (Cons c cs)
  then have "125 \<notin> set (takeWhile (\<lambda>x. x \<noteq> 10) cs)"
    by (meson set_takeWhileD list.set_intros(2))
  with Cons show ?case by (simp add: greedy_close_None)
qed

lemma outermost_open:
  "outermost_braces (123 # cs) = map_option ((#) 123) (greedy_close cs)"
  by (simp add: outermost_braces_def greedy_close_def split: list.splits
      del: dropWhile_eq_Nil_conv)

lemma re_search_open:
  assumes "10 \<notin> set cs"
  shows "re_search_braces (123 # cs) =
     (case greedy_close cs of Some m \<Rightarrow> Some (123 # m) | None \<Rightarrow> re_search_braces cs)"
proof -
  from assms have "takeWhile (\<lambda>x. x \<noteq> 10) cs = cs"
    by (auto simp: takeWhile_eq_all_conv)
  then show ?thesis
    by (simp only: re_search_braces.simps refl if_True)
qed

lemma re_search_outermost:
  "10 \<notin> set line \<Longrightarrow> re_search_braces line = outermost_braces line"
proof (induction line)
  case Nil
  show ?case by (simp add: outermost_braces_def)
next
  case (Cons c cs)
  show ?case
  proof (cases "c = 123")
    case False
    with Cons show ?thesis by (simp add: outermost_braces_def)
  next
    case True
    from Cons.prems have nl: "10 \<notin> set cs" by simp
    show ?thesis
    proof (cases "greedy_close cs")
      case None
      then have "125 \<notin> set cs" by (simp add: greedy_close_None_iff)
      then have "re_search_braces cs = None" by (rule re_search_no_close)
      with None show ?thesis
        unfolding True by (simp add: re_search_open [OF nl] outermost_open del: re_search_braces.simps)
    next
      case (Some m)
      then show ?thesis
        unfolding True by (simp add: re_search_open [OF nl] outermost_open del: re_search_braces.simps)
    qed
  qed
qed

lemma parse_line_policy: "10 \<notin> set line \<Longrightarrow> parse_line line = decode_policy line"
  by (simp add: parse_line_def decode_policy_def re_search_outermost cong: option.case_cong)


text \<open>
  C2. When the transport is not open, \<open>send_cmd\<close> raises
  \<open>RuntimeError("Serial port not open")\<close> and leaves the object as it was, the record of
  channel operations included: nothing is written or read. This covers the initial
  object, any object after \<open>close()\<close>, and the initial object after an \<open>open()\<close> whose
  constructor raised.
\<close>

theorem send_not_connected:
  "(comm_is_open c = False \<longrightarrow> send_cmd io c cmd tmo = (Inl not_open, c))
   \<and> send_cmd io comm_init cmd tmo = (Inl not_open, comm_init)
   \<and> send_cmd io (snd (comm_close out c)) cmd tmo = (Inl not_open, snd (comm_close out c))
   \<and> (ctor_raises oio = Some e \<longrightarrow>
        send_cmd io (snd (comm_open oio comm_init port baud t)) cmd tmo
          = (Inl not_open, snd (comm_open oio comm_init port baud t)))
   \<and> not_open = RuntimeError (u ''Serial port not open'')"
proof -
  have a: "comm_is_open comm_init = False"
    by (simp add: comm_is_open_def comm_init_def)
  have b: "comm_is_open (snd (comm_close out c)) = False"
    by (simp add: comm_is_open_def comm_close_ser)
  have d: "ctor_raises oio = Some e \<Longrightarrow>
      comm_is_open (snd (comm_open oio comm_init port baud t)) = False"
    by (simp add: comm_is_open_def comm_open_def comm_init_def perform_def)
  show ?thesis
    using a b d by (simp add: send_cmd_closed not_open_def)
qed

theorem send_not_connected_witness:
  "send_cmd \<lparr>reset_raises = None, write_raises = None, readline_result = Inr ''pong''\<rparr>
      \<lparr>ser = Some \<lparr>is_open = False, timeout = 5\<rparr>, channel = [Close]\<rparr> (u ''PING'') 5
     = (Inl (RuntimeError (u ''Serial port not open'')),
        \<lparr>ser = Some \<lparr>is_open = False, timeout = 5\<rparr>, channel = [Close]\<rparr>)"
  using send_not_connected
    [of "\<lparr>ser = Some \<lparr>is_open = False, timeout = 5\<rparr>, channel = [Close]\<rparr>"
        "\<lparr>reset_raises = None, write_raises = None, readline_result = Inr ''pong''\<rparr>"
        "u ''PING''" 5]
  by (simp add: comm_is_open_def)

text \<open>
  C4. On an open connection, when the command line is written and \<open>readline\<close> returns no
  bytes, \<open>send_cmd\<close> raises \<open>TimeoutError\<close> (no result pair) whose text carries the
  per-call timeout and the command text as the caller gave it.
\<close>

theorem send_timeout:
  assumes "ser c = Some h" and "is_open h"
    and "encode_utf8 (strip cmd @ [10]) = Some bs"
    and "write_raises io = None"
    and "readline_result io = Inr []"
  shows "fst (send_cmd io c cmd tmo)
     = Inl (TimeoutError (u ''No response within '' @ digits_of tmo @ u ''s for command: '' @ cmd))"
  using assms by (simp add: send_cmd_open no_response_def)

theorem send_timeout_witness:
  "fst (send_cmd \<lparr>reset_raises = None, write_raises = None, readline_result = Inr []\<rparr>
          open5 (u '' STATUS '') 3)
     = Inl (TimeoutError (u ''No response within 3s for command:  STATUS ''))"
proof -
  have e: "encode_utf8 (strip (u '' STATUS '') @ [10]) = Some (''STATUS'' @ [CHR 0x0A])"
    by code_simp
  have m: "u ''No response within '' @ digits_of 3 @ u ''s for command: '' @ u '' STATUS ''
      = u ''No response within 3s for command:  STATUS ''"
    by code_simp
  show ?thesis
    using send_timeout [of open5 "\<lparr>is_open = True, timeout = 5\<rparr>" "u '' STATUS ''"
        "''STATUS'' @ [CHR 0x0A]"
        "\<lparr>reset_raises = None, write_raises = None, readline_result = Inr []\<rparr>" 3] e m
    by (simp add: open5_def)
qed

text \<open>
  C5. After \<open>send_cmd\<close>, whatever it returned or raised, the handle is the one before the
  call with the same \<open>timeout\<close>; and when the call gets as far as reading, the one
  \<open>readline\<close> runs with the per-call timeout in force.
\<close>

theorem send_restores_timeout:
  "ser (snd (send_cmd io c cmd tmo)) = ser c
   \<and> (ser c = Some h \<and> is_open h \<and> encode_utf8 (strip cmd @ [10]) = Some bs
        \<and> write_raises io = None \<longrightarrow>
      channel (snd (send_cmd io c cmd tmo)) = channel c @ [Reset, Write bs, Readline tmo])"
  by (simp add: send_cmd_ser send_cmd_open)

theorem send_restores_timeout_witness:
  "snd (send_cmd \<lparr>reset_raises = None, write_raises = None,
                 readline_result = Inl (SerialException (u ''device disconnected''))\<rparr>
          open5 (u ''CALIBRATE 500.0'') 15)
     = \<lparr>ser = Some \<lparr>is_open = True, timeout = 5\<rparr>,
        channel = [Reset, Write (''CALIBRATE 500.0'' @ [CHR 0x0A]), Readline 15]\<rparr>"
proof -
  have e: "encode_utf8 (strip (u ''CALIBRATE 500.0'') @ [10]) = Some (''CALIBRATE 500.0'' @ [CHR 0x0A])"
    by code_simp
  show ?thesis
    using send_restores_timeout [of "\<lparr>reset_raises = None, write_raises = None,
                 readline_result = Inl (SerialException (u ''device disconnected''))\<rparr>"
        open5 "u ''CALIBRATE 500.0''" 15 "\<lparr>is_open = True, timeout = 5\<rparr>"
        "''CALIBRATE 500.0'' @ [CHR 0x0A]"] e
    by (cases "send_cmd \<lparr>reset_raises = None, write_raises = None,
                 readline_result = Inl (SerialException (u ''device disconnected''))\<rparr>
          open5 (u ''CALIBRATE 500.0'') 15") (simp add: open5_def)
qed

text \<open>
  C10. On an open connection where the command line is written and \<open>readline\<close> returns
  bytes: \<open>send_cmd\<close> raises \<open>TimeoutError\<close> exactly when the bytes are empty; any
  other bytes, a fragment without line feed included, are decoded with replacement,
  trimmed and returned as the raw text.
\<close>

theorem send_timeout_iff_empty:
  assumes "ser c = Some h" and "is_open h"
    and "encode_utf8 (strip cmd @ [10]) = Some bs"
    and "write_raises io = None"
    and "readline_result io = Inr raw"
  shows "fst (send_cmd io c cmd tmo)
       = (if raw = [] then Inl (no_response tmo cmd)
          else Inr (parse_line (strip (decode_utf8_replace raw)), strip (decode_utf8_replace raw)))
     \<and> ((\<exists>m. fst (send_cmd io c cmd tmo) = Inl (TimeoutError m)) = (raw = []))"
  using assms by (simp add: send_cmd_open no_response_def)

theorem send_timeout_iff_empty_witness:
  "fst (send_cmd \<lparr>reset_raises = None, write_raises = None,
                 readline_result = Inr (''  {\"ok\":tr'')\<rparr> open5 (u ''READ'') 3)
     = Inr (JNull, u ''{\"ok\":tr'')"
proof -
  have e: "encode_utf8 (strip (u ''READ'') @ [10]) = Some (''READ'' @ [CHR 0x0A])"
    by code_simp
  have l: "strip (decode_utf8_replace (''  {\"ok\":tr'')) = u ''{\"ok\":tr''"
    by code_simp
  have p: "parse_line (u ''{\"ok\":tr'') = JNull"
    by code_simp
  have n: "(''  {\"ok\":tr'' = []) = False" by simp
  show ?thesis
    using send_timeout_iff_empty [of open5 "\<lparr>is_open = True, timeout = 5\<rparr>" "u ''READ''"
        "''READ'' @ [CHR 0x0A]"
        "\<lparr>reset_raises = None, write_raises = None, readline_result = Inr (''  {\"ok\":tr'')\<rparr>"
        "''  {\"ok\":tr''" 3] e l p
    by (simp add: open5_def)
qed


text \<open>
  C1. For a reply line (no line feed inside the trimmed text), \<open>send_cmd\<close> returns
  normally the pair of the decoded value and the trimmed line, the decoded value being
  that of the specification's policy: the whole line, else the outermost braces, else
  absent. For the noisy PING reply of the specification it returns the mapping
  \<open>{ok: true, cmd: "PING", msg: "pong"}\<close> and the whole line.
\<close>

theorem send_decode_policy:
  "(ser c = Some h \<and> is_open h \<and> encode_utf8 (strip cmd @ [10]) = Some bs
      \<and> write_raises io = None \<and> readline_result io = Inr raw \<and> raw \<noteq> []
      \<and> 10 \<notin> set (strip (decode_utf8_replace raw)) \<longrightarrow>
    fst (send_cmd io c cmd tmo)
      = Inr (decode_policy (strip (decode_utf8_replace raw)), strip (decode_utf8_replace raw)))
   \<and> fst (send_cmd
            \<lparr>reset_raises = None, write_raises = None,
             readline_result =
               Inr (''noisy-prefix {\"ok\":true,\"cmd\":\"PING\",\"msg\":\"pong\"} trailing''
                      @ [CHR 0x0A])\<rparr>
            open5 (u ''PING'') 5)
       = Inr (JObj [(u ''ok'', JBool True), (u ''cmd'', JStr (u ''PING'')),
                    (u ''msg'', JStr (u ''pong''))],
              u ''noisy-prefix {\"ok\":true,\"cmd\":\"PING\",\"msg\":\"pong\"} trailing'')"
proof -
  have e: "encode_utf8 (strip (u ''PING'') @ [10]) = Some (''PING'' @ [CHR 0x0A])"
    by code_simp
  have l: "strip (decode_utf8_replace
        (''noisy-prefix {\"ok\":true,\"cmd\":\"PING\",\"msg\":\"pong\"} trailing'' @ [CHR 0x0A]))
      = u ''noisy-prefix {\"ok\":true,\"cmd\":\"PING\",\"msg\":\"pong\"} trailing''"
    by code_simp
  have p: "parse_line (u ''noisy-prefix {\"ok\":true,\"cmd\":\"PING\",\"msg\":\"pong\"} trailing'')
      = JObj [(u ''ok'', JBool True), (u ''cmd'', JStr (u ''PING'')),
              (u ''msg'', JStr (u ''pong''))]"
    by code_simp
  let ?io = "\<lparr>reset_raises = None, write_raises = None,
             readline_result =
               Inr (''noisy-prefix {\"ok\":true,\"cmd\":\"PING\",\"msg\":\"pong\"} trailing''
                      @ [CHR 0x0A])\<rparr>"
  have s: "send_cmd ?io open5 (u ''PING'') 5 =
     ((case readline_result ?io of
         Inl e \<Rightarrow> Inl e
       | Inr raw \<Rightarrow>
           if raw = [] then Inl (no_response 5 (u ''PING''))
           else Inr (parse_line (strip (decode_utf8_replace raw)), strip (decode_utf8_replace raw))),
      open5\<lparr>channel := channel open5 @ [Reset, Write (''PING'' @ [CHR 0x0A]), Readline 5]\<rparr>)"
    by (rule send_cmd_open [where h = "\<lparr>is_open = True, timeout = 5\<rparr>"])
       (simp_all add: open5_def e)
  have ex: "fst (send_cmd ?io open5 (u ''PING'') 5)
       = Inr (JObj [(u ''ok'', JBool True), (u ''cmd'', JStr (u ''PING'')),
                    (u ''msg'', JStr (u ''pong''))],
              u ''noisy-prefix {\"ok\":true,\"cmd\":\"PING\",\"msg\":\"pong\"} trailing'')"
    unfolding s using l p by simp
  show ?thesis
    using ex by (simp add: send_cmd_open parse_line_policy)
qed

theorem send_decode_policy_witness:
  "fst (send_cmd \<lparr>reset_raises = None, write_raises = None,
                 readline_result = Inr (''DEVICE BOOTING'' @ [CHR 0x0D, CHR 0x0A])\<rparr>
          open5 (u ''PING'') 5)
     = Inr (JNull, u ''DEVICE BOOTING'')"
proof -
  have e: "encode_utf8 (strip (u ''PING'') @ [10]) = Some (''PING'' @ [CHR 0x0A])"
    by code_simp
  have l: "strip (decode_utf8_replace (''DEVICE BOOTING'' @ [CHR 0x0D, CHR 0x0A]))
      = u ''DEVICE BOOTING''"
    by code_simp
  have n: "10 \<notin> set (u ''DEVICE BOOTING'')"
    by code_simp
  have p: "decode_policy (u ''DEVICE BOOTING'') = JNull"
    by code_simp
  show ?thesis
    using send_decode_policy [THEN conjunct1, of open5 "\<lparr>is_open = True, timeout = 5\<rparr>"
        "u ''PING''" "''PING'' @ [CHR 0x0A]"
        "\<lparr>reset_raises = None, write_raises = None,
          readline_result = Inr (''DEVICE BOOTING'' @ [CHR 0x0D, CHR 0x0A])\<rparr>"
        "''DEVICE BOOTING'' @ [CHR 0x0D, CHR 0x0A]" 5] e l n p
    by (simp add: open5_def)
qed

end
